theory Spec2Isabelle
  imports Main
begin

section \<open>Values, errors and the environment\<close>

text \<open>
  The JavaScript values the models handle: the rows that \<open>db.query\<close> returns and the
  objects built from them. \<open>Undefined\<close> is what reading an absent property gives,
  \<open>Null\<close> is SQL NULL, \<open>Date\<close> is a timestamp column (an instant, counted in ticks).
\<close>

datatype jsval =
    Undefined
  | Null
  | Str string
  | Num nat
  | Date nat
  | Obj "(string \<times> jsval) list"

type_synonym row = "(string \<times> jsval) list"

text \<open>
  What an operation throws. \<open>ExpressError message status\<close> is the application's own error
  class; \<open>QueryError code\<close> is a rejection of \<open>db.query\<close>, carrying the \<open>code\<close> property
  of the error (an SQLSTATE such as 23505, or the code of a connection failure);
  \<open>JsError\<close> is an error raised by the runtime or a library, which has no \<open>code\<close>.
\<close>

datatype error =
    ExpressError string nat
  | QueryError string
  | JsError string

fun code :: "error \<Rightarrow> string option" where
  "code (QueryError c) = Some c"
| "code (ExpressError msg st) = None"
| "code (JsError msg) = None"

text \<open>
  The configuration constants and the two libraries (bcrypt, jsonwebtoken) are not part of
  the sources; they are parameters of every operation that uses them.
\<close>

record env =
  BCRYPT_WORK_FACTOR :: nat
  SECRET_KEY :: string
  bcrypt_hash :: "string \<Rightarrow> nat \<Rightarrow> string"
  bcrypt_compare :: "string \<Rightarrow> string \<Rightarrow> bool"
  jwt_sign :: "row \<Rightarrow> string \<Rightarrow> string"

text \<open>\<open>!x\<close> on a request field or argument: absent and the empty string are falsy.\<close>

definition falsy :: "string option \<Rightarrow> bool" where
  "falsy x = (case x of None \<Rightarrow> True | Some s \<Rightarrow> s = [])"

text \<open>\<open>!xs\<close> on an array: every array is an object, so it is truthy, the empty one too.\<close>

definition array_truthy :: "'a list \<Rightarrow> bool" where
  "array_truthy xs = True"

text \<open>\<open>r.k\<close>: the property \<open>k\<close> of the object \<open>r\<close>, \<open>undefined\<close> when it has none.\<close>

definition property :: "row \<Rightarrow> string \<Rightarrow> jsval" where
  "property r k = (case map_of r k of None \<Rightarrow> Undefined | Some v \<Rightarrow> v)"

text \<open>\<open>rows[0]\<close>: \<open>undefined\<close> (here \<open>None\<close>) on the empty array.\<close>

definition first_row :: "row list \<Rightarrow> row option" where
  "first_row rows = (case rows of [] \<Rightarrow> None | r # rest \<Rightarrow> Some r)"

definition opt_str :: "string option \<Rightarrow> jsval" where
  "opt_str x = (case x of None \<Rightarrow> Null | Some s \<Rightarrow> Str s)"

definition opt_date :: "nat option \<Rightarrow> jsval" where
  "opt_date x = (case x of None \<Rightarrow> Null | Some t \<Rightarrow> Date t)"

section \<open>The store\<close>

text \<open>
  Modelled from the spec: the schema of the two tables is not among the sources. The
  columns are the ones the SQL statements of \<open>src/models/user.js\<close> name; the data model
  of the specification makes \<open>username\<close> the unique identifier of a user, enforced by
  the storage, and \<open>id\<close> the storage-assigned identifier of a message.

  \<open>clock\<close> is the instant \<open>now()\<close> and \<open>current_timestamp\<close> read. \<open>outage\<close> is \<open>Some c\<close>
  while the storage rejects every query with an error whose \<open>code\<close> is \<open>c\<close> (the
  connection is refused, the server is shutting down), and \<open>None\<close> while it answers.
\<close>

record user_row =
  u_username :: string
  u_password :: string
  u_first_name :: string
  u_last_name :: string
  u_phone :: string
  u_join_at :: nat
  u_last_login_at :: nat

record message_row =
  m_id :: nat
  m_from_username :: string
  m_to_username :: "string option"
  m_body :: "string option"
  m_sent_at :: nat
  m_read_at :: "nat option"

record store =
  users :: "user_row list"
  messages :: "message_row list"
  clock :: nat
  next_id :: nat
  outage :: "string option"

subsection \<open>The statements of \<open>src/models/user.js\<close>\<close>

text \<open>
  \<open>INSERT INTO users (...) VALUES ($1, $2, $3, $4, $5, now(), current_timestamp)
  RETURNING username, password, first_name, last_name, phone\<close>.
  A second row with the same username is the unique-key conflict, SQLSTATE 23505.
\<close>

definition insert_user ::
  "store \<Rightarrow> string \<Rightarrow> string \<Rightarrow> string \<Rightarrow> string \<Rightarrow> string \<Rightarrow> (error + row list) \<times> store" where
  "insert_user db username hashedPass first_name last_name phone =
     (case outage db of
        Some c \<Rightarrow> (Inl (QueryError c), db)
      | None \<Rightarrow>
          if username \<in> set (map u_username (users db))
          then (Inl (QueryError ''23505''), db)
          else (Inr [[(''username'', Str username), (''password'', Str hashedPass),
                      (''first_name'', Str first_name), (''last_name'', Str last_name),
                      (''phone'', Str phone)]],
                db\<lparr>users := users db @
                  [\<lparr>u_username = username, u_password = hashedPass,
                    u_first_name = first_name, u_last_name = last_name, u_phone = phone,
                    u_join_at = clock db, u_last_login_at = clock db\<rparr>]\<rparr>))"

text \<open>\<open>SELECT username, password FROM users WHERE username = $1\<close>\<close>

definition select_credentials :: "store \<Rightarrow> string \<Rightarrow> error + row list" where
  "select_credentials db username =
     (case outage db of
        Some c \<Rightarrow> Inl (QueryError c)
      | None \<Rightarrow>
          Inr (map (\<lambda>u. [(''username'', Str (u_username u)), (''password'', Str (u_password u))])
                 (filter (\<lambda>u. u_username u = username) (users db))))"

text \<open>\<open>UPDATE users SET last_login_at = current_timestamp WHERE username = $1\<close>\<close>

definition update_last_login :: "store \<Rightarrow> string \<Rightarrow> (error + row list) \<times> store" where
  "update_last_login db username =
     (case outage db of
        Some c \<Rightarrow> (Inl (QueryError c), db)
      | None \<Rightarrow>
          (Inr [],
           db\<lparr>users := map (\<lambda>u. if u_username u = username
                                 then u\<lparr>u_last_login_at := clock db\<rparr> else u) (users db)\<rparr>))"

text \<open>\<open>SELECT username, first_name, last_name, phone FROM users\<close>\<close>

definition select_users :: "store \<Rightarrow> error + row list" where
  "select_users db =
     (case outage db of
        Some c \<Rightarrow> Inl (QueryError c)
      | None \<Rightarrow>
          Inr (map (\<lambda>u. [(''username'', Str (u_username u)), (''first_name'', Str (u_first_name u)),
                         (''last_name'', Str (u_last_name u)), (''phone'', Str (u_phone u))])
                 (users db)))"

text \<open>
  \<open>SELECT username, first_name, last_name, phone, join_at, last_login_at
  FROM users WHERE username = $1\<close>
\<close>

definition select_user :: "store \<Rightarrow> string \<Rightarrow> error + row list" where
  "select_user db username =
     (case outage db of
        Some c \<Rightarrow> Inl (QueryError c)
      | None \<Rightarrow>
          Inr (map (\<lambda>u. [(''username'', Str (u_username u)), (''first_name'', Str (u_first_name u)),
                         (''last_name'', Str (u_last_name u)), (''phone'', Str (u_phone u)),
                         (''join_at'', Date (u_join_at u)),
                         (''last_login_at'', Date (u_last_login_at u))])
                 (filter (\<lambda>u. u_username u = username) (users db))))"

text \<open>
  The two directional queries select the same columns,
  \<open>m.id, m.to_username, m.body, m.sent_at, m.read_at, u.username, u.first_name,
  u.last_name, u.phone\<close>, from \<open>messages AS m LEFT JOIN users AS u\<close>. A message whose
  join key matches no user gives one row with NULL in the columns of \<open>u\<close>.
\<close>

definition message_columns :: "message_row \<Rightarrow> row" where
  "message_columns m =
     [(''id'', Num (m_id m)), (''to_username'', opt_str (m_to_username m)),
      (''body'', opt_str (m_body m)), (''sent_at'', Date (m_sent_at m)),
      (''read_at'', opt_date (m_read_at m))]"

definition user_columns :: "user_row \<Rightarrow> row" where
  "user_columns u =
     [(''username'', Str (u_username u)), (''first_name'', Str (u_first_name u)),
      (''last_name'', Str (u_last_name u)), (''phone'', Str (u_phone u))]"

definition null_user_columns :: row where
  "null_user_columns =
     [(''username'', Null), (''first_name'', Null), (''last_name'', Null), (''phone'', Null)]"

definition left_join_users :: "user_row list \<Rightarrow> message_row \<Rightarrow> string option \<Rightarrow> row list" where
  "left_join_users us m k =
     (case filter (\<lambda>u. Some (u_username u) = k) us of
        [] \<Rightarrow> [message_columns m @ null_user_columns]
      | v # vs \<Rightarrow> map (\<lambda>u. message_columns m @ user_columns u) (v # vs))"

text \<open>\<open>... ON m.to_username = u.username WHERE m.from_username = $1\<close>\<close>

definition select_messages_from :: "store \<Rightarrow> string \<Rightarrow> error + row list" where
  "select_messages_from db username =
     (case outage db of
        Some c \<Rightarrow> Inl (QueryError c)
      | None \<Rightarrow>
          Inr (concat (map (\<lambda>m. left_join_users (users db) m (m_to_username m))
                         (filter (\<lambda>m. m_from_username m = username) (messages db)))))"

text \<open>\<open>... ON m.from_username = u.username WHERE m.to_username = $1\<close>\<close>

definition select_messages_to :: "store \<Rightarrow> string \<Rightarrow> error + row list" where
  "select_messages_to db username =
     (case outage db of
        Some c \<Rightarrow> Inl (QueryError c)
      | None \<Rightarrow>
          Inr (concat (map (\<lambda>m. left_join_users (users db) m (Some (m_from_username m)))
                         (filter (\<lambda>m. m_to_username m = Some username) (messages db)))))"

section \<open>The User class (\<open>src/models/user.js\<close>)\<close>

text \<open>
  \<open>User.register\<close>. The result is \<open>Inl e\<close> when the method throws \<open>e\<close>, \<open>Inr (Some user)\<close>
  when it returns the inserted row and \<open>Inr None\<close> when it returns \<open>undefined\<close>: the
  \<open>catch\<close> block rethrows for the code 23505 only and falls off its end otherwise.
\<close>

definition User_register ::
  "env \<Rightarrow> store \<Rightarrow> string \<Rightarrow> string \<Rightarrow> string \<Rightarrow> string \<Rightarrow> string \<Rightarrow> (error + row option) \<times> store" where
  "User_register env db username password first_name last_name phone =
     (let hashedPass = bcrypt_hash env password (BCRYPT_WORK_FACTOR env) in
      case insert_user db username hashedPass first_name last_name phone of
        (Inr rows, db') \<Rightarrow> (Inr (first_row rows), db')
      | (Inl e, db') \<Rightarrow>
          if code e = Some ''23505''
          then (Inl (ExpressError ''Username taken. Please pick another'' 400), db')
          else (Inr None, db'))"

text \<open>
  \<open>bcrypt.compare(password, user.password)\<close>: the library rejects a hash that is not a
  string.
\<close>

definition compare_hash :: "env \<Rightarrow> string \<Rightarrow> jsval \<Rightarrow> error + bool" where
  "compare_hash env password h =
     (case h of
        Str s \<Rightarrow> Inr (bcrypt_compare env password s)
      | _ \<Rightarrow> Inl (JsError ''data and hash arguments required''))"

text \<open>
  \<open>User.authenticate\<close>. The token the method signs on a match is dropped at once, so it
  is not part of the model.
\<close>

definition User_authenticate :: "env \<Rightarrow> store \<Rightarrow> string option \<Rightarrow> string option \<Rightarrow> error + bool" where
  "User_authenticate env db username password =
     (if falsy username \<or> falsy password
      then Inl (ExpressError ''Username and password required'' 400)
      else
        case select_credentials db (the username) of
          Inl e \<Rightarrow> Inl e
        | Inr rows \<Rightarrow>
            (case first_row rows of
               None \<Rightarrow> Inr False
             | Some user \<Rightarrow> compare_hash env (the password) (property user ''password'')))"

definition User_updateLoginTimestamp :: "store \<Rightarrow> string \<Rightarrow> (error + unit) \<times> store" where
  "User_updateLoginTimestamp db username =
     (case update_last_login db username of
        (Inl e, db') \<Rightarrow> (Inl e, db')
      | (Inr rows, db') \<Rightarrow> (Inr (), db'))"

definition User_all :: "store \<Rightarrow> error + row list" where
  "User_all db = (case select_users db of Inl e \<Rightarrow> Inl e | Inr rows \<Rightarrow> Inr rows)"

definition User_get :: "store \<Rightarrow> string \<Rightarrow> error + row" where
  "User_get db username =
     (case select_user db username of
        Inl e \<Rightarrow> Inl e
      | Inr rows \<Rightarrow>
          (case first_row rows of
             None \<Rightarrow> Inl (ExpressError ''user not found'' 404)
           | Some user \<Rightarrow> Inr user))"

definition User_messagesFrom :: "store \<Rightarrow> string \<Rightarrow> error + row list" where
  "User_messagesFrom db username =
     (case select_messages_from db username of
        Inl e \<Rightarrow> Inl e
      | Inr rows \<Rightarrow>
          (let messages =
             map (\<lambda>r. [(''id'', property r ''id''),
                       (''to_user'', Obj [(''username'', property r ''to_username''),
                                          (''first_name'', property r ''first_name''),
                                          (''last_name'', property r ''last_name''),
                                          (''phone'', property r ''phone'')]),
                       (''body'', property r ''body''),
                       (''sent_at'', property r ''sent_at''),
                       (''read_at'', property r ''read_at'')]) rows
           in if \<not> array_truthy messages
              then Inl (ExpressError ''messages not found'' 404)
              else Inr messages))"

definition User_messagesTo :: "store \<Rightarrow> string \<Rightarrow> error + row list" where
  "User_messagesTo db username =
     (case select_messages_to db username of
        Inl e \<Rightarrow> Inl e
      | Inr rows \<Rightarrow>
          (let messages =
             map (\<lambda>r. [(''id'', property r ''id''),
                       (''from_user'', Obj [(''username'', property r ''username''),
                                            (''first_name'', property r ''first_name''),
                                            (''last_name'', property r ''last_name''),
                                            (''phone'', property r ''phone'')]),
                       (''body'', property r ''body''),
                       (''sent_at'', property r ''sent_at''),
                       (''read_at'', property r ''read_at'')]) rows
           in if \<not> array_truthy messages
              then Inl (ExpressError ''messages not found'' 404)
              else Inr messages))"

section \<open>The Message class\<close>

text \<open>
  Modelled from the spec: the Message class, whose file is not among the sources. The
  route handlers of \<open>src/routes/messages.js\<close> call three of its methods; the shapes of
  what they return are those the comments of the handlers give
  (\<open>{id, body, sent_at, read_at, from_user, to_user}\<close>,
  \<open>{id, from_username, to_username, body, sent_at}\<close>, \<open>{id, read_at}\<close>), and their
  behaviour is that of the Message Ledger of the specification.
\<close>

record summary =
  s_username :: "string option"
  s_first_name :: "string option"
  s_last_name :: "string option"
  s_phone :: "string option"

record message_detail =
  d_id :: nat
  d_from_user :: summary
  d_to_user :: summary
  d_body :: "string option"
  d_sent_at :: nat
  d_read_at :: "nat option"

record created_message =
  c_id :: nat
  c_from_username :: string
  c_to_username :: "string option"
  c_body :: "string option"
  c_sent_at :: nat

record read_receipt =
  r_id :: nat
  r_read_at :: nat

text \<open>
  Modelled from the spec: the embedded user summary \<open>{username, firstName, lastName, phone}\<close>
  of a message, a join at read time. The username is the message's reference; the other
  fields are those of the user it names, absent when the reference names no user (the
  specification validates neither reference).
\<close>

definition summary_of :: "store \<Rightarrow> string option \<Rightarrow> summary" where
  "summary_of db k =
     (case k of
        None \<Rightarrow> \<lparr>s_username = None, s_first_name = None, s_last_name = None, s_phone = None\<rparr>
      | Some n \<Rightarrow>
          (case filter (\<lambda>u. u_username u = n) (users db) of
             [] \<Rightarrow> \<lparr>s_username = Some n, s_first_name = None, s_last_name = None,
                    s_phone = None\<rparr>
           | u # rest \<Rightarrow> \<lparr>s_username = Some n, s_first_name = Some (u_first_name u),
                          s_last_name = Some (u_last_name u), s_phone = Some (u_phone u)\<rparr>))"

text \<open>
  Modelled from the spec: \<open>Message.get(id)\<close>, missing from the sources. It returns the
  message with the summaries of its sender and recipient and fails with NotFound (404)
  if no message has the identifier. The specification fixes the kind of the error, not
  its text. A storage failure is raised like in the User class.
\<close>

definition Message_get :: "store \<Rightarrow> nat \<Rightarrow> error + message_detail" where
  "Message_get db ident =
     (case outage db of
        Some c \<Rightarrow> Inl (QueryError c)
      | None \<Rightarrow>
          (case filter (\<lambda>m. m_id m = ident) (messages db) of
             [] \<Rightarrow> Inl (ExpressError ''message not found'' 404)
           | m # rest \<Rightarrow>
               Inr \<lparr>d_id = m_id m,
                    d_from_user = summary_of db (Some (m_from_username m)),
                    d_to_user = summary_of db (m_to_username m),
                    d_body = m_body m, d_sent_at = m_sent_at m, d_read_at = m_read_at m\<rparr>))"

text \<open>
  Modelled from the spec: \<open>Message.create({from_username, to_username, body})\<close>, missing
  from the sources. It persists a new message under a fresh storage-assigned identifier,
  with \<open>sentAt\<close> the creation instant and \<open>readAt\<close> null, and validates neither username.
\<close>

definition Message_create ::
  "store \<Rightarrow> string \<Rightarrow> string option \<Rightarrow> string option \<Rightarrow> (error + created_message) \<times> store" where
  "Message_create db from_username to_username body =
     (case outage db of
        Some c \<Rightarrow> (Inl (QueryError c), db)
      | None \<Rightarrow>
          (Inr \<lparr>c_id = next_id db, c_from_username = from_username,
                c_to_username = to_username, c_body = body, c_sent_at = clock db\<rparr>,
           db\<lparr>messages := messages db @
                 [\<lparr>m_id = next_id db, m_from_username = from_username,
                   m_to_username = to_username, m_body = body, m_sent_at = clock db,
                   m_read_at = None\<rparr>],
               next_id := Suc (next_id db)\<rparr>))"

text \<open>
  Modelled from the spec: \<open>Message.markRead(id)\<close>, missing from the sources. It sets
  \<open>readAt\<close> of the message to the current instant (the last write wins) and returns
  \<open>{id, readAt}\<close>; an absent message is NotFound (404).
\<close>

definition Message_markRead :: "store \<Rightarrow> nat \<Rightarrow> (error + read_receipt) \<times> store" where
  "Message_markRead db ident =
     (case outage db of
        Some c \<Rightarrow> (Inl (QueryError c), db)
      | None \<Rightarrow>
          (case filter (\<lambda>m. m_id m = ident) (messages db) of
             [] \<Rightarrow> (Inl (ExpressError ''message not found'' 404), db)
           | m # rest \<Rightarrow>
               (Inr \<lparr>r_id = ident, r_read_at = clock db\<rparr>,
                db\<lparr>messages := map (\<lambda>m. if m_id m = ident
                                          then m\<lparr>m_read_at := Some (clock db)\<rparr> else m)
                                   (messages db)\<rparr>)))"

section \<open>Requests and responses\<close>

text \<open>
  A request as a handler sees it: \<open>req_user\<close> is \<open>req.user.username\<close>, the username
  claim of the payload that the token verification upstream attached as \<open>req.user\<close>, and
  \<open>None\<close> when the request carried no token that verifies (\<open>req.user\<close> is undefined);
  \<open>req_params_id\<close> is \<open>req.params.id\<close>; \<open>req_body\<close> maps the names of the fields of the
  body to their values.

  The type parameter is the type of the claim. \<open>POST /\<close> hands the claim to
  \<open>Message.create\<close> as the sender's username and is modelled over usernames. The two
  handlers that compare the claim, \<open>GET /:id\<close> and \<open>POST /:id/read\<close>, are modelled over
  every JSON value: the authentication routes sign whatever truthy value the parsed
  body holds under username, so the claim of a verified token may be a number, a
  boolean, an array or an object as well as a string.

  A handler answers with \<open>res.json\<close>, hands an error to \<open>next\<close>, or returns without doing
  either, which leaves the request unanswered.
\<close>

record 'u request =
  req_user :: "'u option"
  req_params_id :: nat
  req_body :: "string \<Rightarrow> string option"

datatype 'a response = Json 'a | Next error | NoResponse

text \<open>\<open>req.user.username\<close>: reading a property of \<open>undefined\<close> throws a TypeError.\<close>

definition req_user_username :: "'u request \<Rightarrow> error + 'u" where
  "req_user_username req =
     (case req_user req of
        None \<Rightarrow> Inl (JsError ''TypeError: Cannot read property username of undefined'')
      | Some c \<Rightarrow> Inr c)"

text \<open>
  Modelled from the spec: the middleware \<open>ensureLoggedIn\<close>, missing from the sources. A
  request without a verified token fails with Unauthenticated (401); the specification
  fixes the status, not the text.
\<close>

definition ensureLoggedIn :: "'u request \<Rightarrow> error + unit" where
  "ensureLoggedIn req =
     (case req_user req of
        None \<Rightarrow> Inl (ExpressError ''Unauthorized'' 401)
      | Some c \<Rightarrow> Inr ())"

section \<open>Loose equality\<close>

text \<open>
  The values \<open>JSON.parse\<close> produces. Numbers are kept abstract (the type \<open>'n\<close>); what the
  language does with them is a parameter: \<open>number_equals n t\<close> is \<open>n == t\<close> for a number
  \<open>n\<close> and a string \<open>t\<close> (the string is converted to a number), \<open>boolean_equals b t\<close> is
  \<open>b == t\<close> for a boolean (both sides are converted to numbers), and \<open>number_to_string\<close>
  is the conversion of a number to a string.
\<close>

datatype 'n json =
    JNull
  | JBool bool
  | JNum 'n
  | JStr string
  | JArr "'n json list"
  | JObj "(string \<times> 'n json) list"

record 'n runtime =
  number_equals :: "'n \<Rightarrow> string \<Rightarrow> bool"
  boolean_equals :: "bool \<Rightarrow> string \<Rightarrow> bool"
  number_to_string :: "'n \<Rightarrow> string"

text \<open>
  The conversion of a JSON value to a string. An array is joined: its elements are
  converted in order and separated by commas, a null element giving the empty string. A
  plain object gives \<open>[object Object]\<close> through the inherited \<open>toString\<close>; when the object
  has a property of its own named toString, that property is not callable, no method
  yields a primitive value and the conversion throws a TypeError.
\<close>

fun to_text :: "'n runtime \<Rightarrow> 'n json \<Rightarrow> error + string"
  and join_texts :: "'n runtime \<Rightarrow> 'n json list \<Rightarrow> error + string" where
  "to_text rt JNull = Inr ''null''"
| "to_text rt (JBool b) = Inr (if b then ''true'' else ''false'')"
| "to_text rt (JNum n) = Inr (number_to_string rt n)"
| "to_text rt (JStr t) = Inr t"
| "to_text rt (JArr xs) = join_texts rt xs"
| "to_text rt (JObj kvs) =
     (if ''toString'' \<in> set (map fst kvs)
      then Inl (JsError ''TypeError: Cannot convert object to primitive value'')
      else Inr ''[object Object]'')"
| "join_texts rt [] = Inr []"
| "join_texts rt [x] = (if x = JNull then Inr [] else to_text rt x)"
| "join_texts rt (x # y # ys) =
     (case (if x = JNull then Inr [] else to_text rt x) of
        Inl e \<Rightarrow> Inl e
      | Inr t \<Rightarrow>
          (case join_texts rt (y # ys) of
             Inl e \<Rightarrow> Inl e
           | Inr r \<Rightarrow> Inr (t @ '','' @ r)))"

text \<open>
  \<open>x == y\<close> for a JSON value \<open>x\<close> and a username column \<open>y\<close>, a string or null (\<open>None\<close>).
  Only null equals null. Against a string, a string is compared as it is, a number and a
  boolean are compared as numbers, and an array or an object is first converted to a
  primitive value, which for these is its string.
\<close>

definition loose_eq :: "'n runtime \<Rightarrow> 'n json \<Rightarrow> string option \<Rightarrow> error + bool" where
  "loose_eq rt x y =
     (case y of
        None \<Rightarrow> Inr (x = JNull)
      | Some t \<Rightarrow>
          (case x of
             JNull \<Rightarrow> Inr False
           | JBool b \<Rightarrow> Inr (boolean_equals rt b t)
           | JNum n \<Rightarrow> Inr (number_equals rt n t)
           | JStr u \<Rightarrow> Inr (u = t)
           | JArr xs \<Rightarrow> (case to_text rt x of Inl e \<Rightarrow> Inl e | Inr u \<Rightarrow> Inr (u = t))
           | JObj kvs \<Rightarrow> (case to_text rt x of Inl e \<Rightarrow> Inl e | Inr u \<Rightarrow> Inr (u = t))))"

section \<open>The authentication routes (\<open>src/routes/auth.js\<close>)\<close>

text \<open>
  \<open>POST /login\<close>. The handler does not await \<open>User.updateLoginTimestamp\<close>: the response
  does not depend on its outcome, and the store returned here is the one it leaves.
\<close>

definition post_login :: "env \<Rightarrow> store \<Rightarrow> 'u request \<Rightarrow> row response \<times> store" where
  "post_login env db req =
     (let username = req_body req ''username''; password = req_body req ''password'' in
      if falsy username \<or> falsy password
      then (Next (ExpressError ''Username and password required'' 400), db)
      else
        case User_authenticate env db username password of
          Inl e \<Rightarrow> (Next e, db)
        | Inr user \<Rightarrow>
            if user
            then
              (let token = jwt_sign env [(''username'', Str (the username))] (SECRET_KEY env)
               in (Json [(''message'', Str ''Logged in!''), (''token'', Str token)],
                   snd (User_updateLoginTimestamp db (the username))))
            else (Next (ExpressError ''Invalid username/password'' 400), db))"

text \<open>
  \<open>POST /register\<close>. When \<open>User.register\<close> returns \<open>undefined\<close> the handler falls off its
  end without an answer.
\<close>

definition post_register :: "env \<Rightarrow> store \<Rightarrow> 'u request \<Rightarrow> row response \<times> store" where
  "post_register env db req =
     (let username = req_body req ''username''; password = req_body req ''password'';
          first_name = req_body req ''first_name''; last_name = req_body req ''last_name'';
          phone = req_body req ''phone'' in
      if falsy username \<or> falsy password \<or> falsy first_name \<or> falsy last_name \<or> falsy phone
      then (Next (ExpressError ''please input all required information'' 400), db)
      else
        case User_register env db (the username) (the password) (the first_name)
               (the last_name) (the phone) of
          (Inl e, db') \<Rightarrow> (Next e, db')
        | (Inr None, db') \<Rightarrow> (NoResponse, db')
        | (Inr (Some user), db') \<Rightarrow>
            (let token = jwt_sign env [(''username'', Str (the username))] (SECRET_KEY env)
             in (Json [(''message'', Str ''registered!''), (''token'', Str token)],
                 snd (User_updateLoginTimestamp db' (the username)))))"

section \<open>The message routes (\<open>src/routes/messages.js\<close>)\<close>

text \<open>
  \<open>GET /:id\<close>, registered without a middleware. The condition is
  \<open>req.user.username == message.from_user.username ||
  req.user.username == message.to_user.username\<close>, with loose equality, the second
  comparison being made only when the first is false.
\<close>

definition get_message ::
  "'n runtime \<Rightarrow> store \<Rightarrow> 'n json request \<Rightarrow> message_detail response" where
  "get_message rt db req =
     (case Message_get db (req_params_id req) of
        Inl e \<Rightarrow> Next e
      | Inr message \<Rightarrow>
          (case req_user_username req of
             Inl e \<Rightarrow> Next e
           | Inr c \<Rightarrow>
               (case loose_eq rt c (s_username (d_from_user message)) of
                  Inl e \<Rightarrow> Next e
                | Inr is_sender \<Rightarrow>
                    if is_sender then Json message
                    else
                      (case loose_eq rt c (s_username (d_to_user message)) of
                         Inl e \<Rightarrow> Next e
                       | Inr is_recipient \<Rightarrow>
                           if is_recipient then Json message
                           else Next (ExpressError ''Not Authorized'' 401)))))"

text \<open>\<open>POST /\<close>, registered behind \<open>ensureLoggedIn\<close>.\<close>

definition post_message ::
  "store \<Rightarrow> string request \<Rightarrow> created_message response \<times> store" where
  "post_message db req =
     (case ensureLoggedIn req of
        Inl e \<Rightarrow> (Next e, db)
      | Inr ok \<Rightarrow>
          (case req_user_username req of
             Inl e \<Rightarrow> (Next e, db)
           | Inr c \<Rightarrow>
               (case Message_create db c (req_body req ''to_username'') (req_body req ''body'') of
                  (Inl e, db') \<Rightarrow> (Next e, db')
                | (Inr message, db') \<Rightarrow> (Json message, db'))))"

text \<open>
  \<open>POST /:id/read\<close>, registered without a middleware. The condition is
  \<open>req.user.username == message.to_user.username\<close>, with loose equality.
\<close>

definition post_message_read ::
  "'n runtime \<Rightarrow> store \<Rightarrow> 'n json request \<Rightarrow> read_receipt response \<times> store" where
  "post_message_read rt db req =
     (case Message_get db (req_params_id req) of
        Inl e \<Rightarrow> (Next e, db)
      | Inr message \<Rightarrow>
          (case req_user_username req of
             Inl e \<Rightarrow> (Next e, db)
           | Inr c \<Rightarrow>
               (case loose_eq rt c (s_username (d_to_user message)) of
                  Inl e \<Rightarrow> (Next e, db)
                | Inr is_recipient \<Rightarrow>
                    if is_recipient
                    then
                      (case Message_markRead db (req_params_id req) of
                         (Inl e, db') \<Rightarrow> (Next e, db')
                       | (Inr results, db') \<Rightarrow> (Json results, db'))
                    else (Next (ExpressError ''Not Authorized'' 401), db))))"

section \<open>Sample data\<close>

text \<open>
  A small instance of the environment and of the store, on which the statements below are
  evaluated: a transparent stand-in for the hash, a store holding alice and bob and one
  message from alice to bob.
\<close>

definition sample_env :: env where
  "sample_env =
     \<lparr>BCRYPT_WORK_FACTOR = 12, SECRET_KEY = ''secret'',
      bcrypt_hash = (\<lambda>p n. ''#'' @ p),
      bcrypt_compare = (\<lambda>p h. h = ''#'' @ p),
      jwt_sign = (\<lambda>payload key.
        concat (map (\<lambda>(k, v). k @ ''='' @ (case v of Str s \<Rightarrow> s | _ \<Rightarrow> [])) payload)
          @ ''.'' @ key)\<rparr>"

definition empty_store :: store where
  "empty_store = \<lparr>users = [], messages = [], clock = 7, next_id = 1, outage = None\<rparr>"

definition alice :: user_row where
  "alice = \<lparr>u_username = ''alice'', u_password = ''#pw1'', u_first_name = ''Alice'',
            u_last_name = ''A'', u_phone = ''555-0001'', u_join_at = 1, u_last_login_at = 1\<rparr>"

definition bob :: user_row where
  "bob = \<lparr>u_username = ''bob'', u_password = ''#pw2'', u_first_name = ''Bob'',
          u_last_name = ''B'', u_phone = ''555-0002'', u_join_at = 2, u_last_login_at = 2\<rparr>"

definition hi :: message_row where
  "hi = \<lparr>m_id = 1, m_from_username = ''alice'', m_to_username = Some ''bob'',
         m_body = Some ''hi'', m_sent_at = 3, m_read_at = None\<rparr>"

definition sample_store :: store where
  "sample_store =
     \<lparr>users = [alice, bob], messages = [hi], clock = 7, next_id = 2, outage = None\<rparr>"

definition request_of :: "'u option \<Rightarrow> nat \<Rightarrow> (string \<times> string) list \<Rightarrow> 'u request" where
  "request_of c ident kvs = \<lparr>req_user = c, req_params_id = ident, req_body = map_of kvs\<rparr>"

lemmas sample_defs = sample_env_def sample_store_def empty_store_def alice_def bob_def hi_def
  request_of_def

section \<open>Auxiliary facts\<close>

lemma filter_find:
  "find P xs = Some x \<Longrightarrow> \<exists>rest. filter P xs = x # rest"
  by (induction xs) (auto split: if_splits)

lemma first_row_map_filter:
  "first_row (map f (filter P xs)) = map_option f (find P xs)"
  by (induction xs) (auto simp: first_row_def)

lemma summary_of_username:
  "s_username (summary_of db k) = k"
  by (simp add: summary_of_def split: option.splits list.splits)

section \<open>What the user operations return\<close>

text \<open>
  C1, as the code has it. \<open>User.get\<close> and \<open>User.all\<close> return rows whose columns are
  exactly username, first_name, last_name and phone (and join_at, last_login_at for
  \<open>get\<close>): the password column is not among them. \<open>User.register\<close> returns the inserted
  row with the columns username, password, first_name, last_name and phone, and its
  password is the hash that was stored.
\<close>

theorem profile_projections:
  "(\<forall>user. User_get db username = Inr user \<longrightarrow>
      map fst user = [''username'', ''first_name'', ''last_name'', ''phone'', ''join_at'',
                      ''last_login_at''])
   \<and> (\<forall>rows. User_all db = Inr rows \<longrightarrow>
        (\<forall>user \<in> set rows.
           map fst user = [''username'', ''first_name'', ''last_name'', ''phone'']))
   \<and> (\<forall>user db'.
        User_register env db name password first_name last_name phone = (Inr (Some user), db')
        \<longrightarrow> map fst user = [''username'', ''password'', ''first_name'', ''last_name'', ''phone'']
          \<and> property user ''password'' = Str (bcrypt_hash env password (BCRYPT_WORK_FACTOR env))
          \<and> u_password (last (users db')) = bcrypt_hash env password (BCRYPT_WORK_FACTOR env))"
proof (intro conjI allI impI)
  fix user
  assume "User_get db username = Inr user"
  then show "map fst user = [''username'', ''first_name'', ''last_name'', ''phone'',
                             ''join_at'', ''last_login_at'']"
    by (auto simp: User_get_def select_user_def first_row_map_filter
             split: option.splits sum.splits)
next
  fix rows
  assume "User_all db = Inr rows"
  then show "\<forall>user \<in> set rows.
               map fst user = [''username'', ''first_name'', ''last_name'', ''phone'']"
    by (auto simp: User_all_def select_users_def split: option.splits sum.splits)
next
  fix user db'
  assume r: "User_register env db name password first_name last_name phone
               = (Inr (Some user), db')"
  then show "map fst user = [''username'', ''password'', ''first_name'', ''last_name'', ''phone'']"
    by (auto simp: User_register_def insert_user_def first_row_def Let_def
             split: option.splits if_splits)
  from r show "property user ''password''
                 = Str (bcrypt_hash env password (BCRYPT_WORK_FACTOR env))"
    by (auto simp: User_register_def insert_user_def first_row_def Let_def property_def
             split: option.splits if_splits)
  from r show "u_password (last (users db')) = bcrypt_hash env password (BCRYPT_WORK_FACTOR env)"
    by (auto simp: User_register_def insert_user_def first_row_def Let_def
             split: option.splits if_splits)
qed

text \<open>The three operations on the sample store.\<close>

theorem profile_projections_witness:
  "User_get sample_store ''alice''
     = Inr [(''username'', Str ''alice''), (''first_name'', Str ''Alice''),
            (''last_name'', Str ''A''), (''phone'', Str ''555-0001''),
            (''join_at'', Date 1), (''last_login_at'', Date 1)]
   \<and> map fst [(''username'', Str ''alice''), (''first_name'', Str ''Alice''),
            (''last_name'', Str ''A''), (''phone'', Str ''555-0001''),
            (''join_at'', Date 1), (''last_login_at'', Date 1)]
     = [''username'', ''first_name'', ''last_name'', ''phone'', ''join_at'', ''last_login_at'']
   \<and> User_all sample_store
     = Inr [[(''username'', Str ''alice''), (''first_name'', Str ''Alice''),
             (''last_name'', Str ''A''), (''phone'', Str ''555-0001'')],
            [(''username'', Str ''bob''), (''first_name'', Str ''Bob''),
             (''last_name'', Str ''B''), (''phone'', Str ''555-0002'')]]
   \<and> fst (User_register sample_env sample_store ''carol'' ''pw3'' ''Carol'' ''C'' ''555-0003'')
     = Inr (Some [(''username'', Str ''carol''), (''password'', Str ''#pw3''),
                  (''first_name'', Str ''Carol''), (''last_name'', Str ''C''),
                  (''phone'', Str ''555-0003'')])
   \<and> u_password (last (users (snd (User_register sample_env sample_store
         ''carol'' ''pw3'' ''Carol'' ''C'' ''555-0003'')))) = ''#pw3''"
  using profile_projections [of sample_store "''alice''" sample_env "''carol''" "''pw3''"
      "''Carol''" "''C''" "''555-0003''"]
  by (simp add: User_get_def select_user_def User_all_def select_users_def User_register_def
        insert_user_def first_row_def Let_def sample_defs)

text \<open>
  C1 as the specification words it fails for \<open>register\<close>: registering alice on the empty
  store returns a row whose password column holds the hash that the store now keeps.
\<close>

theorem register_returns_hash:
  "fst (User_register sample_env empty_store ''alice'' ''pw1'' ''Alice'' ''A'' ''555-0001'')
     = Inr (Some [(''username'', Str ''alice''), (''password'', Str ''#pw1''),
                  (''first_name'', Str ''Alice''), (''last_name'', Str ''A''),
                  (''phone'', Str ''555-0001'')])
   \<and> map u_password (users (snd (User_register sample_env empty_store
         ''alice'' ''pw1'' ''Alice'' ''A'' ''555-0001''))) = [''#pw1'']"
  by (simp add: User_register_def insert_user_def first_row_def Let_def sample_defs)

section \<open>Registration\<close>



text \<open>
  C8 fails on the code. While the storage refuses connections, \<open>User.register\<close> neither
  returns a row nor throws: the \<open>catch\<close> block drops every error whose code is not
  23505, the method returns \<open>undefined\<close>, and the handler of \<open>POST /register\<close> then leaves
  the request unanswered.
\<close>

theorem register_swallows_storage_failure:
  "User_register sample_env (empty_store\<lparr>outage := Some ''ECONNREFUSED''\<rparr>)
       ''alice'' ''pw1'' ''Alice'' ''A'' ''555-0001''
     = (Inr None, empty_store\<lparr>outage := Some ''ECONNREFUSED''\<rparr>)
   \<and> post_register sample_env (empty_store\<lparr>outage := Some ''ECONNREFUSED''\<rparr>)
        (request_of None 0 [(''username'', ''alice''), (''password'', ''pw1''),
           (''first_name'', ''Alice''), (''last_name'', ''A''), (''phone'', ''555-0001'')])
     = (NoResponse, empty_store\<lparr>outage := Some ''ECONNREFUSED''\<rparr>)"
  by (simp add: User_register_def insert_user_def post_register_def falsy_def Let_def sample_defs)

section \<open>Authentication\<close>

text \<open>
  C7. \<open>User.authenticate\<close> throws ``Username and password required'' (400) exactly when
  one of its two arguments is absent or empty. With both present, on a store that answers
  and holds no user of that name, it returns false. It returns true only if the store
  holds a user of that name whose stored hash \<open>bcrypt.compare\<close> accepts for the password.
\<close>

theorem authenticate_contract:
  "(User_authenticate env db username password
      = Inl (ExpressError ''Username and password required'' 400))
     = (falsy username \<or> falsy password)
   \<and> (\<not> falsy username \<and> \<not> falsy password \<and> outage db = None
        \<and> the username \<notin> set (map u_username (users db))
      \<longrightarrow> User_authenticate env db username password = Inr False)
   \<and> (User_authenticate env db username password = Inr True
      \<longrightarrow> (\<exists>u. find (\<lambda>u. u_username u = the username) (users db) = Some u
               \<and> bcrypt_compare env (the password) (u_password u)))"
proof (intro conjI impI)
  show "(User_authenticate env db username password
           = Inl (ExpressError ''Username and password required'' 400))
          = (falsy username \<or> falsy password)"
    by (auto simp: User_authenticate_def select_credentials_def first_row_map_filter
          compare_hash_def property_def split: option.splits sum.splits)
next
  assume a: "\<not> falsy username \<and> \<not> falsy password \<and> outage db = None
        \<and> the username \<notin> set (map u_username (users db))"
  then have "filter (\<lambda>u. u_username u = the username) (users db) = []"
    by (force simp: filter_empty_conv)
  with a show "User_authenticate env db username password = Inr False"
    by (simp add: User_authenticate_def select_credentials_def first_row_def)
next
  assume "User_authenticate env db username password = Inr True"
  then show "\<exists>u. find (\<lambda>u. u_username u = the username) (users db) = Some u
               \<and> bcrypt_compare env (the password) (u_password u)"
    by (auto simp: User_authenticate_def select_credentials_def first_row_map_filter
          compare_hash_def property_def split: option.splits sum.splits if_splits)
qed

text \<open>An unknown user, alice with her password and with bob's, and two missing arguments.\<close>

theorem authenticate_contract_witness:
  "\<not> falsy (Some ''nouser'') \<and> \<not> falsy (Some ''x'') \<and> outage sample_store = None
   \<and> ''nouser'' \<notin> set (map u_username (users sample_store))
   \<and> User_authenticate sample_env sample_store (Some ''nouser'') (Some ''x'') = Inr False
   \<and> User_authenticate sample_env sample_store (Some ''alice'') (Some ''pw1'') = Inr True
   \<and> find (\<lambda>u. u_username u = ''alice'') (users sample_store) = Some alice
   \<and> bcrypt_compare sample_env ''pw1'' (u_password alice)
   \<and> User_authenticate sample_env sample_store (Some ''alice'') (Some ''pw2'') = Inr False
   \<and> User_authenticate sample_env sample_store (Some ''alice'') None
       = Inl (ExpressError ''Username and password required'' 400)
   \<and> User_authenticate sample_env sample_store (Some []) (Some ''pw1'')
       = Inl (ExpressError ''Username and password required'' 400)"
  using authenticate_contract [of sample_env sample_store "Some ''nouser''" "Some ''x''"]
    authenticate_contract [of sample_env sample_store "Some ''alice''" "Some ''pw1''"]
  by (simp add: User_authenticate_def select_credentials_def first_row_def compare_hash_def
        property_def falsy_def sample_defs)

section \<open>The directional queries\<close>

text \<open>
  C9. \<open>User.messagesFrom\<close> and \<open>User.messagesTo\<close> never throw ``messages not found''
  (404): what \<open>map\<close> returns is an array, and an array is truthy. While the storage
  answers both return a sequence, the empty one for a user with no matching message.
\<close>

theorem directional_queries_never_not_found:
  "User_messagesFrom db username \<noteq> Inl (ExpressError ''messages not found'' 404)
   \<and> User_messagesTo db username \<noteq> Inl (ExpressError ''messages not found'' 404)
   \<and> (outage db = None \<longrightarrow>
        (\<exists>ms. User_messagesFrom db username = Inr ms)
        \<and> (\<exists>ms. User_messagesTo db username = Inr ms))
   \<and> (outage db = None \<and> username \<notin> set (map m_from_username (messages db)) \<longrightarrow>
        User_messagesFrom db username = Inr [])
   \<and> (outage db = None \<and> Some username \<notin> set (map m_to_username (messages db)) \<longrightarrow>
        User_messagesTo db username = Inr [])"
proof (intro conjI impI)
  show "User_messagesFrom db username \<noteq> Inl (ExpressError ''messages not found'' 404)"
    by (simp add: User_messagesFrom_def select_messages_from_def array_truthy_def
          split: option.splits)
  show "User_messagesTo db username \<noteq> Inl (ExpressError ''messages not found'' 404)"
    by (simp add: User_messagesTo_def select_messages_to_def array_truthy_def
          split: option.splits)
next
  assume "outage db = None"
  then show "\<exists>ms. User_messagesFrom db username = Inr ms"
    by (simp add: User_messagesFrom_def select_messages_from_def array_truthy_def)
next
  assume "outage db = None"
  then show "\<exists>ms. User_messagesTo db username = Inr ms"
    by (simp add: User_messagesTo_def select_messages_to_def array_truthy_def)
next
  assume a: "outage db = None \<and> username \<notin> set (map m_from_username (messages db))"
  then have "filter (\<lambda>m. m_from_username m = username) (messages db) = []"
    by (force simp: filter_empty_conv)
  with a show "User_messagesFrom db username = Inr []"
    by (simp add: User_messagesFrom_def select_messages_from_def array_truthy_def)
next
  assume a: "outage db = None \<and> Some username \<notin> set (map m_to_username (messages db))"
  then have "filter (\<lambda>m. m_to_username m = Some username) (messages db) = []"
    by (force simp: filter_empty_conv)
  with a show "User_messagesTo db username = Inr []"
    by (simp add: User_messagesTo_def select_messages_to_def array_truthy_def)
qed

text \<open>carol has no message in either direction; alice has sent one and bob received it.\<close>

theorem directional_queries_witness:
  "outage sample_store = None
   \<and> ''carol'' \<notin> set (map m_from_username (messages sample_store))
   \<and> Some ''carol'' \<notin> set (map m_to_username (messages sample_store))
   \<and> User_messagesFrom sample_store ''carol'' = Inr []
   \<and> User_messagesTo sample_store ''carol'' = Inr []
   \<and> User_messagesFrom sample_store ''alice''
       = Inr [[(''id'', Num 1),
               (''to_user'', Obj [(''username'', Str ''bob''), (''first_name'', Str ''Bob''),
                                  (''last_name'', Str ''B''), (''phone'', Str ''555-0002'')]),
               (''body'', Str ''hi''), (''sent_at'', Date 3), (''read_at'', Null)]]
   \<and> User_messagesTo sample_store ''bob''
       = Inr [[(''id'', Num 1),
               (''from_user'', Obj [(''username'', Str ''alice''), (''first_name'', Str ''Alice''),
                                    (''last_name'', Str ''A''), (''phone'', Str ''555-0001'')]),
               (''body'', Str ''hi''), (''sent_at'', Date 3), (''read_at'', Null)]]"
  using directional_queries_never_not_found [of sample_store "''carol''"]
  by (simp add: User_messagesFrom_def User_messagesTo_def select_messages_from_def
        select_messages_to_def left_join_users_def message_columns_def user_columns_def
        null_user_columns_def property_def opt_str_def opt_date_def array_truthy_def
        sample_defs)

section \<open>The responses of the authentication routes\<close>

text \<open>
  C10. Whenever \<open>POST /login\<close> or \<open>POST /register\<close> answers with \<open>res.json\<close>, the object
  sent has exactly the two fields message and token, the token being signed over the
  username of the request alone: nothing of the row that \<open>User.register\<close> returned, its
  password hash included, is in the response.
\<close>

theorem auth_responses:
  "(\<forall>obj db'. post_login env db req = (Json obj, db') \<longrightarrow>
      obj = [(''message'', Str ''Logged in!''),
             (''token'', Str (jwt_sign env [(''username'', Str (the (req_body req ''username'')))]
                               (SECRET_KEY env)))])
   \<and> (\<forall>obj db'. post_register env db req = (Json obj, db') \<longrightarrow>
      obj = [(''message'', Str ''registered!''),
             (''token'', Str (jwt_sign env [(''username'', Str (the (req_body req ''username'')))]
                               (SECRET_KEY env)))])"
proof (intro conjI allI impI)
  fix obj db'
  assume "post_login env db req = (Json obj, db')"
  then show "obj = [(''message'', Str ''Logged in!''),
             (''token'', Str (jwt_sign env [(''username'', Str (the (req_body req ''username'')))]
                               (SECRET_KEY env)))]"
    by (auto simp: post_login_def Let_def split: if_splits sum.splits)
next
  fix obj db'
  assume "post_register env db req = (Json obj, db')"
  then show "obj = [(''message'', Str ''registered!''),
             (''token'', Str (jwt_sign env [(''username'', Str (the (req_body req ''username'')))]
                               (SECRET_KEY env)))]"
    by (auto simp: post_register_def Let_def
             split: if_splits sum.splits option.splits prod.splits)
qed

text \<open>alice logs in and carol registers; both get a message and a token.\<close>

theorem auth_responses_witness:
  "fst (post_login sample_env sample_store
          (request_of None 0 [(''username'', ''alice''), (''password'', ''pw1'')]))
     = Json [(''message'', Str ''Logged in!''), (''token'', Str ''username=alice.secret'')]
   \<and> fst (post_register sample_env sample_store
          (request_of None 0 [(''username'', ''carol''), (''password'', ''pw3''),
             (''first_name'', ''Carol''), (''last_name'', ''C''), (''phone'', ''555-0003'')]))
     = Json [(''message'', Str ''registered!''), (''token'', Str ''username=carol.secret'')]"
proof -
  let ?a = "request_of None 0 [(''username'', ''alice''), (''password'', ''pw1'')]"
  let ?c = "request_of None 0 [(''username'', ''carol''), (''password'', ''pw3''),
             (''first_name'', ''Carol''), (''last_name'', ''C''), (''phone'', ''555-0003'')]"
  have l: "\<exists>obj db'. post_login sample_env sample_store ?a = (Json obj, db')"
    by (simp add: post_login_def User_authenticate_def select_credentials_def first_row_def
          compare_hash_def property_def falsy_def Let_def sample_defs)
  have r: "\<exists>obj db'. post_register sample_env sample_store ?c = (Json obj, db')"
    by (simp add: post_register_def User_register_def insert_user_def first_row_def
          falsy_def Let_def sample_defs)
  have ta: "jwt_sign sample_env [(''username'', Str (the (req_body ?a ''username'')))]
              (SECRET_KEY sample_env) = ''username=alice.secret''"
    by (simp add: sample_defs)
  have tc: "jwt_sign sample_env [(''username'', Str (the (req_body ?c ''username'')))]
              (SECRET_KEY sample_env) = ''username=carol.secret''"
    by (simp add: sample_defs)
  from l auth_responses [of sample_env sample_store ?a] ta
  have "fst (post_login sample_env sample_store ?a)
     = Json [(''message'', Str ''Logged in!''), (''token'', Str ''username=alice.secret'')]"
    by (metis fst_conv)
  moreover
  from r auth_responses [of sample_env sample_store ?c] tc
  have "fst (post_register sample_env sample_store ?c)
     = Json [(''message'', Str ''registered!''), (''token'', Str ''username=carol.secret'')]"
    by (metis fst_conv)
  ultimately show ?thesis by (rule conjI)
qed

section \<open>The message routes\<close>

text \<open>
  C2 fails on the code. Only \<open>POST /\<close> is registered behind \<open>ensureLoggedIn\<close> and answers
  a request without a verified token with 401. \<open>GET /:id\<close> and \<open>POST /:id/read\<close> have no
  such guard: for an existing message they read \<open>req.user.username\<close> of an undefined
  \<open>req.user\<close>, and what reaches \<open>next\<close> is a TypeError, not an error of status 401.
\<close>

theorem unauthenticated_message_requests:
  "get_message rt sample_store (request_of None 1 [])
     = Next (JsError ''TypeError: Cannot read property username of undefined'')
   \<and> post_message_read rt sample_store (request_of None 1 [])
     = (Next (JsError ''TypeError: Cannot read property username of undefined''), sample_store)
   \<and> post_message sample_store (request_of None 0 [(''to_username'', ''bob''), (''body'', ''yo'')])
     = (Next (ExpressError ''Unauthorized'' 401), sample_store)"
  by (simp add: get_message_def post_message_read_def post_message_def Message_get_def
        req_user_username_def ensureLoggedIn_def summary_of_def sample_defs)

text \<open>
  C3. For a request of the authenticated caller \<open>c\<close>, \<open>POST /\<close> does the same whatever the
  body's field from_username is set to, or whether it is there at all; every message it
  creates has \<open>c\<close> as its sender, in the response and in the store; and while the storage
  answers it does create one.
\<close>

theorem sender_is_caller:
  assumes "req_user req = Some c"
  shows "post_message db (req\<lparr>req_body := (req_body req)(''from_username'' := v)\<rparr>)
           = post_message db req
         \<and> (\<forall>m db'. post_message db req = (Json m, db') \<longrightarrow>
              c_from_username m = c
              \<and> m_from_username (last (messages db')) = c
              \<and> m_id (last (messages db')) = c_id m)
         \<and> (outage db = None \<longrightarrow> (\<exists>m db'. post_message db req = (Json m, db')))"
  using assms
  by (auto simp: post_message_def ensureLoggedIn_def req_user_username_def Message_create_def
           split: option.splits)

text \<open>alice sends to bob; a body that names mallory as the sender changes nothing.\<close>

theorem sender_is_caller_witness:
  "req_user (request_of (Some ''alice'') 0 [(''to_username'', ''bob''), (''body'', ''yo'')])
     = Some ''alice''
   \<and> post_message sample_store
        (request_of (Some ''alice'') 0 [(''to_username'', ''bob''), (''body'', ''yo'')]
           \<lparr>req_body := (req_body (request_of (Some ''alice'') 0
                [(''to_username'', ''bob''), (''body'', ''yo'')]))
                (''from_username'' := Some ''mallory'')\<rparr>)
     = post_message sample_store
        (request_of (Some ''alice'') 0 [(''to_username'', ''bob''), (''body'', ''yo'')])
   \<and> fst (post_message sample_store
        (request_of (Some ''alice'') 0 [(''to_username'', ''bob''), (''body'', ''yo'')]))
     = Json \<lparr>c_id = 2, c_from_username = ''alice'', c_to_username = Some ''bob'',
             c_body = Some ''yo'', c_sent_at = 7\<rparr>"
proof -
  let ?req = "request_of (Some ''alice'') 0 [(''to_username'', ''bob''), (''body'', ''yo'')]"
  have h: "req_user ?req = Some ''alice''"
    by (simp add: request_of_def)
  have e: "fst (post_message sample_store ?req)
     = Json \<lparr>c_id = 2, c_from_username = ''alice'', c_to_username = Some ''bob'',
             c_body = Some ''yo'', c_sent_at = 7\<rparr>"
    by (simp add: post_message_def ensureLoggedIn_def req_user_username_def Message_create_def
          sample_defs)
  from sender_is_caller [OF h, of sample_store "Some ''mallory''"] h e
  show ?thesis by simp
qed

text \<open>
  For a caller whose claim is a string, the two gates do what their comments ask.
  \<open>GET /:id\<close> answers with the detail of the stored message to its sender and to its
  recipient and with ``Not Authorized'' (401) to anybody else; \<open>POST /:id/read\<close> marks
  the message as read for its recipient and answers anybody else with 401, the store
  untouched.
\<close>

lemma view_by_name:
  assumes "outage db = None"
    and "find (\<lambda>m. m_id m = req_params_id req) (messages db) = Some m"
    and "req_user req = Some (JStr c)"
  shows "get_message rt db req =
           (if c = m_from_username m \<or> Some c = m_to_username m
            then Json \<lparr>d_id = m_id m,
                       d_from_user = summary_of db (Some (m_from_username m)),
                       d_to_user = summary_of db (m_to_username m),
                       d_body = m_body m, d_sent_at = m_sent_at m, d_read_at = m_read_at m\<rparr>
            else Next (ExpressError ''Not Authorized'' 401))"
proof -
  from filter_find [OF assms(2)] obtain rest where
    f: "filter (\<lambda>m. m_id m = req_params_id req) (messages db) = m # rest" by blast
  show ?thesis
    using assms(1,3) f
    by (auto simp: get_message_def Message_get_def req_user_username_def loose_eq_def
          summary_of_username split: option.splits)
qed

lemma mark_read_by_name:
  assumes "outage db = None"
    and "find (\<lambda>m. m_id m = req_params_id req) (messages db) = Some m"
    and "req_user req = Some (JStr c)"
  shows "post_message_read rt db req =
           (if Some c = m_to_username m
            then (Json \<lparr>r_id = req_params_id req, r_read_at = clock db\<rparr>,
                  db\<lparr>messages := map (\<lambda>m. if m_id m = req_params_id req
                                            then m\<lparr>m_read_at := Some (clock db)\<rparr> else m)
                                     (messages db)\<rparr>)
            else (Next (ExpressError ''Not Authorized'' 401), db))"
proof -
  from filter_find [OF assms(2)] obtain rest where
    f: "filter (\<lambda>m. m_id m = req_params_id req) (messages db) = m # rest" by blast
  show ?thesis
    using assms(1,3) f
    by (auto simp: post_message_read_def Message_get_def Message_markRead_def
          req_user_username_def loose_eq_def summary_of_username split: option.splits)
qed

text \<open>
  C4 fails on the code. The comparison of \<open>GET /:id\<close> is loose, and the claim of a
  verified token need not be a string. A caller whose claim is the array \<open>["alice"]\<close> is
  neither the sender alice nor the recipient bob of the sample message, yet
  \<open>["alice"] == "alice"\<close> holds and the handler answers with the message. The caller
  carol, whose claim is a string, is refused.
\<close>

theorem view_gate_admits_stranger:
  "get_message rt sample_store (request_of (Some (JArr [JStr ''alice''])) 1 [])
     = Json \<lparr>d_id = 1,
             d_from_user = \<lparr>s_username = Some ''alice'', s_first_name = Some ''Alice'',
                            s_last_name = Some ''A'', s_phone = Some ''555-0001''\<rparr>,
             d_to_user = \<lparr>s_username = Some ''bob'', s_first_name = Some ''Bob'',
                          s_last_name = Some ''B'', s_phone = Some ''555-0002''\<rparr>,
             d_body = Some ''hi'', d_sent_at = 3, d_read_at = None\<rparr>
   \<and> get_message rt sample_store (request_of (Some (JStr ''carol'')) 1 [])
     = Next (ExpressError ''Not Authorized'' 401)"
  by (simp add: get_message_def Message_get_def req_user_username_def loose_eq_def
        summary_of_def sample_defs)

text \<open>
  C5 fails on the code, by the same loose comparison. A caller whose claim is the array
  \<open>["bob"]\<close> is not the recipient bob of the sample message, yet \<open>POST /:id/read\<close> marks
  the message as read for that caller. The sender alice is refused and the store stays
  as it was.
\<close>

theorem mark_read_gate_admits_stranger:
  "post_message_read rt sample_store (request_of (Some (JArr [JStr ''bob''])) 1 [])
     = (Json \<lparr>r_id = 1, r_read_at = 7\<rparr>,
        sample_store\<lparr>messages := [hi\<lparr>m_read_at := Some 7\<rparr>]\<rparr>)
   \<and> post_message_read rt sample_store (request_of (Some (JStr ''alice'')) 1 [])
     = (Next (ExpressError ''Not Authorized'' 401), sample_store)"
  by (simp add: post_message_read_def Message_get_def Message_markRead_def
        req_user_username_def loose_eq_def summary_of_def sample_defs)

end
